theory Spec2Isabelle
  imports Main
begin

section \<open>The demo programs (src/examples)\<close>

text \<open>
  The three C files are stand-alone programs. What they do beyond returning a value is
  writing text to the two standard streams, so a program state is the text written so far.
\<close>

record io =
  stdout :: string
  stderr :: string

text \<open>
  Passing a null pointer for a \<open>%s\<close> conversion is undefined behaviour in C; the model
  makes it a fault, so that a function which could do it has a faulting branch.
\<close>

datatype fault = NullDereference

text \<open>\<open>printf\<close> with a format that has no conversion: the text goes to \<open>stdout\<close>.\<close>

definition printf :: "string \<Rightarrow> io \<Rightarrow> io" where
  "printf text s = s\<lparr>stdout := stdout s @ text\<rparr>"

text \<open>\<open>fprintf(stderr, text)\<close> with a format that has no conversion.\<close>

definition fprintf_stderr :: "string \<Rightarrow> io \<Rightarrow> io" where
  "fprintf_stderr text s = s\<lparr>stderr := stderr s @ text\<rparr>"

text \<open>
  \<open>fprintf(stderr, "before%safter", arg)\<close>: the argument is a C string or \<open>NULL\<close>
  (\<open>None\<close>).
\<close>

definition fprintf_stderr_s :: "string \<Rightarrow> string \<Rightarrow> string option \<Rightarrow> io \<Rightarrow> fault + io" where
  "fprintf_stderr_s before after arg s =
     (case arg of
        None \<Rightarrow> Inl NullDereference
      | Some text \<Rightarrow> Inr (s\<lparr>stderr := stderr s @ before @ text @ after\<rparr>))"

subsection \<open>demo_block_comments.c\<close>

definition init_issue_tracking :: "io \<Rightarrow> io \<times> int" where
  "init_issue_tracking s = (printf ''Issue tracking integration initialized\<newline>'' s, 0)"

definition handle_edge_case :: "io \<Rightarrow> io \<times> int" where
  "handle_edge_case s = (printf ''Edge case handled with human override\<newline>'' s, 0)"

definition test_block_comments :: "io \<Rightarrow> io" where
  "test_block_comments s = printf ''Block comment parsing works!\<newline>'' s"

definition demo_block_comments_main :: "io \<Rightarrow> io \<times> int" where
  "demo_block_comments_main s0 =
     (let s1 = printf ''Enhanced Breadcrumb Parser Test\<newline>'' s0;
          s2 = printf ''================================\<newline>\<newline>'' s1;
          s3 = fst (init_issue_tracking s2);
          s4 = fst (handle_edge_case s3);
          s5 = test_block_comments s4;
          s6 = printf ''\<newline>All tests passed!\<newline>'' s5
      in (s6, 0))"

subsection \<open>demo_breadcrumb.c\<close>

definition init_kernel_memory :: "io \<Rightarrow> io \<times> int" where
  "init_kernel_memory s0 =
     (let s1 = printf ''Initializing kernel memory subsystem...\<newline>'' s0;
          s2 = printf ''Kernel memory initialized successfully\<newline>'' s1
      in (s2, 0))"

definition init_gpu_pipeline :: "io \<Rightarrow> io \<times> int" where
  "init_gpu_pipeline s0 =
     (let s1 = printf ''Initializing GPU pipeline...\<newline>'' s0;
          s2 = printf ''Basic GPU initialization complete\<newline>'' s1
      in (s2, 0))"

definition handle_error :: "string option \<Rightarrow> io \<Rightarrow> fault + io" where
  "handle_error message s =
     (if message = None then Inr (fprintf_stderr ''Error: NULL error message\<newline>'' s)
      else fprintf_stderr_s ''Error: '' ''\<newline>'' message s)"

definition run_tests :: "io \<Rightarrow> fault + (io \<times> int)" where
  "run_tests s0 =
     (let s1 = printf ''\<newline>=== Running Demo Tests ===\<newline>'' s0;
          s2 = printf ''Test 1: Kernel Memory Init... '' s1;
          (s3, r1) = init_kernel_memory s2
      in if r1 = 0 then
           (let s4 = printf ''PASS\<newline>'' s3;
                s5 = printf ''Test 2: GPU Pipeline Init... '' s4;
                (s6, r2) = init_gpu_pipeline s5
            in if r2 = 0 then
                 (let s7 = printf ''PASS (with TODOs)\<newline>'' s6;
                      s8 = printf ''Test 3: Error Handling... '' s7
                  in case handle_error (Some ''Test error message'') s8 of
                       Inl f \<Rightarrow> Inl f
                     | Inr s9 \<Rightarrow>
                         (case handle_error None s9 of
                            Inl f \<Rightarrow> Inl f
                          | Inr s10 \<Rightarrow>
                              (let s11 = printf ''PASS\<newline>'' s10;
                                   s12 = printf ''\<newline>All tests completed!\<newline>'' s11
                               in Inr (s12, 0))))
               else Inr (printf ''FAIL\<newline>'' s6, 1))
         else Inr (printf ''FAIL\<newline>'' s3, 1))"

definition demo_breadcrumb_main :: "io \<Rightarrow> fault + (io \<times> int)" where
  "demo_breadcrumb_main s0 =
     (let s1 = printf ''AI Breadcrumb Demo Program\<newline>'' s0;
          s2 = printf ''==========================\<newline>\<newline>'' s1;
          s3 = printf ''This program demonstrates the AI breadcrumb system.\<newline>'' s2;
          s4 = printf ''Each function has AI metadata comments that track:\<newline>'' s3;
          s5 = printf ''  - Development phase and status\<newline>'' s4;
          s6 = printf ''  - Implementation strategy\<newline>'' s5;
          s7 = printf ''  - Errors and fixes\<newline>'' s6;
          s8 = printf ''  - Cross-references to other systems\<newline>\<newline>'' s7
      in run_tests s8)"

subsection \<open>distributed_ai_example.c\<close>

text \<open>A \<open>void*\<close> is an address, \<open>NULL\<close> being address 0; a \<open>size_t\<close> is a natural number.\<close>

type_synonym pointer = nat

definition NULL :: pointer where
  "NULL = 0"

definition system_init :: "io \<Rightarrow> io" where
  "system_init s = printf ''System initialized\<newline>'' s"

definition network_send :: "pointer \<Rightarrow> nat \<Rightarrow> int" where
  "network_send data len = 0"

definition parse_config :: "pointer \<Rightarrow> int" where
  "parse_config filename = 0"

definition distributed_ai_example_main :: "int \<Rightarrow> pointer \<Rightarrow> io \<Rightarrow> io \<times> int" where
  "distributed_ai_example_main argc argv s0 =
     (let s1 = printf ''Distributed AI Development Example\<newline>'' s0;
          s2 = printf ''Demonstrating breadcrumb usage for multi-agent coordination\<newline>'' s1;
          s3 = system_init s2
      in (s3, 0))"

section \<open>The breadcrumb engine's data model (spec section 3)\<close>

text \<open>
  The example files carry the breadcrumb annotations; the tool that reads and validates
  them is not among the source files. The definitions of this and the next two sections
  follow the specification's text instead, each marked as such.
\<close>

text \<open>Modelled from the spec: the status enumeration of a BreadcrumbRecord (the parser and
  validator are not in the source files).\<close>

datatype Status = NOT_STARTED | PARTIAL | IMPLEMENTED | FIXED | UNKNOWN

text \<open>Modelled from the spec: the complexity enumeration of a BreadcrumbRecord.\<close>

datatype Complexity = LOW | MEDIUM | HIGH | CRITICAL

text \<open>Modelled from the spec: the severities a Diagnostic is given in sections 4 and 7.\<close>

datatype Severity = Info | Warning | Error

text \<open>Modelled from the spec: a source location, a file path with a line range.\<close>

type_synonym SourceLocation = "string \<times> nat \<times> nat"

text \<open>Modelled from the spec: Diagnostic, a (severity, message, source location) triple.\<close>

record Diagnostic =
  severity :: Severity
  message :: string
  location :: SourceLocation

text \<open>Modelled from the spec: CommentBlock, a comment's line range, its text by line with
  the comment markers stripped, and the name of the declaration that follows it, if any.\<close>

record CommentBlock =
  path :: string
  startLine :: nat
  endLine :: nat
  blockText :: "string list"
  declarationName :: "string option"

text \<open>Modelled from the spec: BreadcrumbRecord. \<open>phase\<close> is optional here because the
  validator has a rule for its absence; the two timestamps and the context value are kept
  as the text read (section 9 leaves the schema of the context open); the two sets of
  phase names are lists without repetition; \<open>extensions\<close> holds the unrecognized keys.\<close>

record BreadcrumbRecord =
  phase :: "string option"
  status :: Status
  pattern :: "string option"
  strategy :: "string option"
  assignedTo :: "string option"
  priority :: "int option"
  complexity :: "Complexity option"
  dependencies :: "string list"
  blocks :: "string list"
  aiContext :: "string list option"
  references :: "(string \<times> string list) list"
  retryCount :: "int option"
  maxRetries :: "int option"
  claimedAt :: "string option"
  timeout :: "string option"
  extensions :: "(string \<times> string) list"
  sourceLocation :: SourceLocation

text \<open>Modelled from the spec: a mapping from a key to the ordered sequence of its values,
  as \<open>references\<close> and the Reporter's indices are described: a value is appended to its
  key's sequence, a new key goes last.\<close>

fun index_add :: "'k \<Rightarrow> 'v \<Rightarrow> ('k \<times> 'v list) list \<Rightarrow> ('k \<times> 'v list) list" where
  "index_add k v [] = [(k, [v])]"
| "index_add k v ((k', vs) # rest) =
     (if k = k' then (k', vs @ [v]) # rest else (k', vs) # index_add k v rest)"

section \<open>The Field Parser (spec section 4.2)\<close>

text \<open>Modelled from the spec: the whitespace class \<open>\s\<close> of the field pattern
  \<open>^\s*KEY:\s*VALUE$\<close> (the Field Parser is not in the source files).\<close>

definition is_space :: "char \<Rightarrow> bool" where
  "is_space c = (c = CHR '' '' \<or> c = CHR 0x09 \<or> c = CHR 0x0A \<or> c = CHR 0x0B
                 \<or> c = CHR 0x0C \<or> c = CHR 0x0D)"

text \<open>Modelled from the spec: the characters of a KEY, "case-sensitive,
  uppercase-with-underscores".\<close>

definition is_key_char :: "char \<Rightarrow> bool" where
  "is_key_char c = ((65 \<le> (of_char c :: nat) \<and> (of_char c :: nat) \<le> 90) \<or> c = CHR ''_'')"

text \<open>Modelled from the spec: a text without the whitespace at its two ends, for "a line
  consisting solely of \<open>}\<close>" and for the names of a comma-separated list.\<close>

definition trim :: "string \<Rightarrow> string" where
  "trim s = rev (dropWhile is_space (rev (dropWhile is_space s)))"

text \<open>Modelled from the spec: a line matching \<open>^\s*KEY:\s*VALUE$\<close> read as the pair of its
  key and its value; any other line is no field assignment.\<close>

definition field_assignment :: "string \<Rightarrow> (string \<times> string) option" where
  "field_assignment l =
     (let s = dropWhile is_space l;
          k = takeWhile is_key_char s
      in case dropWhile is_key_char s of
           [] \<Rightarrow> None
         | c # v \<Rightarrow> if k \<noteq> [] \<and> c = CHR '':'' then Some (k, dropWhile is_space v) else None)"

text \<open>Modelled from the spec: the key of a line that is a field assignment.\<close>

definition field_key :: "string \<Rightarrow> string option" where
  "field_key l = map_option fst (field_assignment l)"

text \<open>Modelled from the spec: the recognized status enumeration, by name.\<close>

definition parse_status :: "string \<Rightarrow> Status option" where
  "parse_status v =
     map_of [(''NOT_STARTED'', NOT_STARTED), (''PARTIAL'', PARTIAL),
             (''IMPLEMENTED'', IMPLEMENTED), (''FIXED'', FIXED), (''UNKNOWN'', UNKNOWN)] v"

text \<open>Modelled from the spec: the complexity enumeration, by name. The spec has no rule for
  a value outside it; the field is then absent.\<close>

definition parse_complexity :: "string \<Rightarrow> Complexity option" where
  "parse_complexity v =
     map_of [(''LOW'', LOW), (''MEDIUM'', MEDIUM), (''HIGH'', HIGH), (''CRITICAL'', CRITICAL)] v"

text \<open>Modelled from the spec: a decimal digit, for the integer fields.\<close>

definition is_digit :: "char \<Rightarrow> bool" where
  "is_digit c = (48 \<le> (of_char c :: nat) \<and> (of_char c :: nat) \<le> 57)"

text \<open>Modelled from the spec: the value of a non-empty run of decimal digits.\<close>

definition parse_digits :: "string \<Rightarrow> int option" where
  "parse_digits ds =
     (if ds \<noteq> [] \<and> list_all is_digit ds
      then Some (foldl (\<lambda>n c. 10 * n + (of_char c - 48)) 0 ds)
      else None)"

text \<open>Modelled from the spec: the value of an "optional integer" field (priority,
  retryCount, maxRetries), a decimal number with an optional minus sign. The spec has no
  rule for a value that is no integer; the field is then absent.\<close>

definition parse_integer :: "string \<Rightarrow> int option" where
  "parse_integer v =
     (case trim v of
        [] \<Rightarrow> None
      | c # ds \<Rightarrow> if c = CHR ''-'' then map_option uminus (parse_digits ds)
                 else parse_digits (c # ds))"

text \<open>Modelled from the spec: a text cut at every occurrence of a separator, for the
  comma-separated phase names of \<open>AI_DEPENDENCIES\<close> and \<open>AI_BLOCKS\<close>.\<close>

fun split_on :: "char \<Rightarrow> string \<Rightarrow> string list" where
  "split_on sep [] = [[]]"
| "split_on sep (c # cs) =
     (if c = sep then [] # split_on sep cs
      else (case split_on sep cs of
              [] \<Rightarrow> [[c]]
            | w # ws \<Rightarrow> (c # w) # ws))"

text \<open>Modelled from the spec: the "set of string" of phase names a dependencies or blocks
  value lists.\<close>

definition phase_names :: "string \<Rightarrow> string list" where
  "phase_names v = remdups (filter (\<lambda>n. n \<noteq> []) (map trim (split_on CHR '','' v)))"

text \<open>Modelled from the spec: the reference-kind keys, \<open>REF_*\<close> and the \<open>LINUX_REF\<close> the
  data model names beside them.\<close>

definition is_reference_kind :: "string \<Rightarrow> bool" where
  "is_reference_kind k = (take 4 k = ''REF_'' \<or> k = ''LINUX_REF'')"

text \<open>Modelled from the spec: the keys of the fields of a BreadcrumbRecord, spelled as in the
  annotations of the example files.\<close>

definition field_keys :: "string list" where
  "field_keys =
     [''AI_PHASE'', ''AI_STATUS'', ''AI_PATTERN'', ''AI_STRATEGY'', ''AI_ASSIGNED_TO'',
      ''AI_PRIORITY'', ''AI_COMPLEXITY'', ''AI_DEPENDENCIES'', ''AI_BLOCKS'', ''AI_CONTEXT'',
      ''AI_RETRY_COUNT'', ''AI_MAX_RETRIES'', ''AI_CLAIMED_AT'', ''AI_TIMEOUT'']"

text \<open>Modelled from the spec: the recognized vocabulary, the field keys and the reference
  kinds.\<close>

definition is_recognized_key :: "string \<Rightarrow> bool" where
  "is_recognized_key k = (k \<in> set field_keys \<or> is_reference_kind k)"

text \<open>Modelled from the spec: the catch-all \<open>extensions\<close> mapping; a key has one value, a
  new key goes last.\<close>

fun put_extension :: "string \<Rightarrow> string \<Rightarrow> (string \<times> string) list \<Rightarrow> (string \<times> string) list" where
  "put_extension k v [] = [(k, v)]"
| "put_extension k v ((k', v') # rest) =
     (if k = k' then (k', v) # rest else (k', v') # put_extension k v rest)"

text \<open>Modelled from the spec: one field assignment applied to the record under
  construction. A status outside the enumeration maps to \<open>UNKNOWN\<close>; reference kinds
  accumulate in file order; an unrecognized key goes to \<open>extensions\<close> with its value
  verbatim.\<close>

definition apply_field :: "string \<Rightarrow> string \<Rightarrow> BreadcrumbRecord \<Rightarrow> BreadcrumbRecord" where
  "apply_field k v r =
     (if k = ''AI_PHASE'' then r\<lparr>phase := Some v\<rparr>
      else if k = ''AI_STATUS''
        then r\<lparr>status := (case parse_status v of None \<Rightarrow> UNKNOWN | Some s \<Rightarrow> s)\<rparr>
      else if k = ''AI_PATTERN'' then r\<lparr>pattern := Some v\<rparr>
      else if k = ''AI_STRATEGY'' then r\<lparr>strategy := Some v\<rparr>
      else if k = ''AI_ASSIGNED_TO'' then r\<lparr>assignedTo := Some v\<rparr>
      else if k = ''AI_PRIORITY'' then r\<lparr>priority := parse_integer v\<rparr>
      else if k = ''AI_COMPLEXITY'' then r\<lparr>complexity := parse_complexity v\<rparr>
      else if k = ''AI_DEPENDENCIES'' then r\<lparr>dependencies := phase_names v\<rparr>
      else if k = ''AI_BLOCKS'' then r\<lparr>blocks := phase_names v\<rparr>
      else if k = ''AI_CONTEXT'' then r\<lparr>aiContext := Some [v]\<rparr>
      else if k = ''AI_RETRY_COUNT'' then r\<lparr>retryCount := parse_integer v\<rparr>
      else if k = ''AI_MAX_RETRIES'' then r\<lparr>maxRetries := parse_integer v\<rparr>
      else if k = ''AI_CLAIMED_AT'' then r\<lparr>claimedAt := Some v\<rparr>
      else if k = ''AI_TIMEOUT'' then r\<lparr>timeout := Some v\<rparr>
      else if is_reference_kind k then r\<lparr>references := index_add k v (references r)\<rparr>
      else r\<lparr>extensions := put_extension k v (extensions r)\<rparr>)"

text \<open>Modelled from the spec: "status values not in the recognized enumeration map to
  UNKNOWN plus a Diagnostic(severity=warning)", with the message of the scenario of
  section 8.\<close>

definition status_diagnostics :: "SourceLocation \<Rightarrow> string \<Rightarrow> string \<Rightarrow> Diagnostic list" where
  "status_diagnostics loc k v =
     (if k = ''AI_STATUS'' \<and> parse_status v = None
      then [\<lparr>severity = Warning, message = ''unrecognized status value: '' @ v, location = loc\<rparr>]
      else [])"

text \<open>Modelled from the spec: the two states of the context sub-parser (section 9); inside
  a context region the lines read so far are kept.\<close>

datatype Mode = OUTSIDE | INSIDE_AWAITING_CLOSE "string list"

text \<open>Modelled from the spec: the Field Parser's state while it reads a block: the mode,
  the record under construction, the diagnostics so far, and whether a key of the
  recognized vocabulary has been seen.\<close>

record ParserState =
  mode :: Mode
  partial :: BreadcrumbRecord
  emitted :: "Diagnostic list"
  recognized :: bool

text \<open>Modelled from the spec: one line of a block. Inside a context region a line
  consisting solely of \<open>}\<close> closes it and any other line is accumulated; outside, the
  line \<open>AI_CONTEXT: {\<close> opens a region, any other field assignment is applied, and a line
  that is no field assignment is passed over.\<close>

definition parse_line :: "SourceLocation \<Rightarrow> string \<Rightarrow> ParserState \<Rightarrow> ParserState" where
  "parse_line loc l st =
     (case mode st of
        INSIDE_AWAITING_CLOSE acc \<Rightarrow>
          if trim l = ''}''
          then st\<lparr>mode := OUTSIDE, partial := (partial st)\<lparr>aiContext := Some acc\<rparr>\<rparr>
          else st\<lparr>mode := INSIDE_AWAITING_CLOSE (acc @ [l])\<rparr>
      | OUTSIDE \<Rightarrow>
          (case field_assignment l of
             None \<Rightarrow> st
           | Some (k, v) \<Rightarrow>
               if k = ''AI_CONTEXT'' \<and> v = ''{''
               then st\<lparr>mode := INSIDE_AWAITING_CLOSE [], recognized := True\<rparr>
               else st\<lparr>partial := apply_field k v (partial st),
                       emitted := emitted st @ status_diagnostics loc k v,
                       recognized := (recognized st \<or> is_recognized_key k)\<rparr>))"

text \<open>Modelled from the spec: the lines of a block, read in order.\<close>

fun parse_lines :: "SourceLocation \<Rightarrow> string list \<Rightarrow> ParserState \<Rightarrow> ParserState" where
  "parse_lines loc [] st = st"
| "parse_lines loc (l # ls) st = parse_lines loc ls (parse_line loc l st)"

text \<open>Modelled from the spec: the record before any field is read: the optional fields
  absent, the sets and mappings empty, the status \<open>UNKNOWN\<close>.\<close>

definition initial_record :: "SourceLocation \<Rightarrow> BreadcrumbRecord" where
  "initial_record loc =
     \<lparr>phase = None, status = UNKNOWN, pattern = None, strategy = None, assignedTo = None,
      priority = None, complexity = None, dependencies = [], blocks = [], aiContext = None,
      references = [], retryCount = None, maxRetries = None, claimedAt = None,
      timeout = None, extensions = [], sourceLocation = loc\<rparr>"

text \<open>Modelled from the spec: the Field Parser's state at the start of a block.\<close>

definition initial_state :: "SourceLocation \<Rightarrow> ParserState" where
  "initial_state loc =
     \<lparr>mode = OUTSIDE, partial = initial_record loc, emitted = [], recognized = False\<rparr>"

text \<open>Modelled from the spec: the end of a block. A context region still open is
  unbalanced: "produce a Diagnostic and the context field is left absent", with the
  severity and message of the scenario of section 8; the other fields stand.\<close>

definition finish :: "SourceLocation \<Rightarrow> ParserState \<Rightarrow> BreadcrumbRecord \<times> Diagnostic list" where
  "finish loc st =
     (case mode st of
        OUTSIDE \<Rightarrow> (partial st, emitted st)
      | INSIDE_AWAITING_CLOSE acc \<Rightarrow>
          ((partial st)\<lparr>aiContext := None\<rparr>,
           emitted st @ [\<lparr>severity = Error, message = ''unbalanced context block'',
                           location = loc\<rparr>]))"

text \<open>Modelled from the spec: the source location of a block, its file path and line
  range.\<close>

definition block_location :: "CommentBlock \<Rightarrow> SourceLocation" where
  "block_location b = (path b, startLine b, endLine b)"

text \<open>Modelled from the spec: the Field Parser's pass over the text of a block.\<close>

definition parse_block :: "CommentBlock \<Rightarrow> ParserState" where
  "parse_block b =
     parse_lines (block_location b) (blockText b) (initial_state (block_location b))"

text \<open>Modelled from the spec: the record and the diagnostics a block's text parses to.\<close>

definition parse_result :: "CommentBlock \<Rightarrow> BreadcrumbRecord \<times> Diagnostic list" where
  "parse_result b = finish (block_location b) (parse_block b)"

text \<open>Modelled from the spec: the Field Parser's contract, "produces either a
  BreadcrumbRecord or a decision that the block carries no recognized fields (silently
  skipped)".\<close>

definition field_parser :: "CommentBlock \<Rightarrow> (BreadcrumbRecord \<times> Diagnostic list) option" where
  "field_parser b = (if recognized (parse_block b) then Some (parse_result b) else None)"

section \<open>The Schema Validator and the Reporter (spec sections 4.3 and 4.4)\<close>

text \<open>Modelled from the spec: the result of validating one record (the validator is not in
  the source files): the record itself, its diagnostics, and the priority used for
  indexing.\<close>

record ValidatedRecord =
  breadcrumb :: BreadcrumbRecord
  diagnostics :: "Diagnostic list"
  indexPriority :: "int option"

text \<open>Modelled from the spec: "phase is required; its absence is
  Diagnostic(severity=error, missing AI_PHASE)".\<close>

definition check_phase :: "BreadcrumbRecord \<Rightarrow> Diagnostic list" where
  "check_phase r =
     (if phase r = None
      then [\<lparr>severity = Error, message = ''missing AI_PHASE'', location = sourceLocation r\<rparr>]
      else [])"

text \<open>Modelled from the spec: "priority outside [0,10] gives Diagnostic(severity=warning)".
  The spec fixes no message text for this rule.\<close>

definition check_priority :: "BreadcrumbRecord \<Rightarrow> Diagnostic list" where
  "check_priority r =
     (case priority r of
        None \<Rightarrow> []
      | Some p \<Rightarrow>
          if p < 0 \<or> 10 < p
          then [\<lparr>severity = Warning, message = ''priority out of range'',
                 location = sourceLocation r\<rparr>]
          else [])"

text \<open>Modelled from the spec: "value clamped to the nearest bound for indexing purposes
  only".\<close>

definition clamp_priority :: "int \<Rightarrow> int" where
  "clamp_priority p = (if p < 0 then 0 else if 10 < p then 10 else p)"

text \<open>Modelled from the spec: "retryCount > maxRetries gives Diagnostic(severity=error)",
  a rule for records that have both values. The spec fixes no message text for it.\<close>

definition check_retries :: "BreadcrumbRecord \<Rightarrow> Diagnostic list" where
  "check_retries r =
     (case retryCount r of
        None \<Rightarrow> []
      | Some c \<Rightarrow>
          (case maxRetries r of
             None \<Rightarrow> []
           | Some m \<Rightarrow>
               if m < c
               then [\<lparr>severity = Error, message = ''retryCount exceeds maxRetries'',
                      location = sourceLocation r\<rparr>]
               else []))"

text \<open>Modelled from the spec: "a record with AI_ASSIGNED_TO but no AI_CLAIMED_AT gives
  Diagnostic(severity=warning, assigned without claim timestamp)".\<close>

definition check_assignment :: "BreadcrumbRecord \<Rightarrow> Diagnostic list" where
  "check_assignment r =
     (if assignedTo r \<noteq> None \<and> claimedAt r = None
      then [\<lparr>severity = Warning, message = ''assigned without claim timestamp'',
             location = sourceLocation r\<rparr>]
      else [])"

text \<open>Modelled from the spec: the Schema Validator's contract, "given a BreadcrumbRecord,
  returns the record augmented with zero or more Diagnostics", with the four rules of
  section 4.3 that look at one record. The two corpus-wide rules (dangling references,
  dependency cycles) add diagnostics only and are not part of this function.\<close>

definition validate :: "BreadcrumbRecord \<Rightarrow> ValidatedRecord" where
  "validate r =
     \<lparr>breadcrumb = r,
      diagnostics = check_phase r @ check_priority r @ check_retries r @ check_assignment r,
      indexPriority = map_option clamp_priority (priority r)\<rparr>"

text \<open>Modelled from the spec: a record is flagged ("marked invalid") when one of its
  diagnostics has severity error.\<close>

definition flagged :: "ValidatedRecord \<Rightarrow> bool" where
  "flagged v = list_ex (\<lambda>d. severity d = Error) (diagnostics v)"

text \<open>Modelled from the spec: an index of the Reporter, from a key to the records that
  have it, in source order; a record without the key is left out.\<close>

definition index_by :: "('v \<Rightarrow> 'k option) \<Rightarrow> 'v list \<Rightarrow> ('k \<times> 'v list) list" where
  "index_by key vs =
     foldl (\<lambda>idx v. case key v of None \<Rightarrow> idx | Some k \<Rightarrow> index_add k v idx) [] vs"

text \<open>Modelled from the spec: the Reporter's result: the primary index from phase name to
  its records, the unindexed list of the records without a phase, the full diagnostic
  list, and the derived indices by status, by assignee and by priority descending.\<close>

record Report =
  byPhase :: "(string \<times> ValidatedRecord list) list"
  unindexed :: "ValidatedRecord list"
  allDiagnostics :: "Diagnostic list"
  byStatus :: "(Status \<times> ValidatedRecord list) list"
  byAssignee :: "(string \<times> ValidatedRecord list) list"
  byPriority :: "ValidatedRecord list"

text \<open>Modelled from the spec: the sort key of the index by priority descending, the
  clamped priority.\<close>

definition priority_key :: "ValidatedRecord \<Rightarrow> int" where
  "priority_key v = (case indexPriority v of None \<Rightarrow> 0 | Some p \<Rightarrow> - p)"

text \<open>Modelled from the spec: the Reporter's single assembly pass over the validated
  records of all files, in scan order, and the diagnostics of the earlier stages.\<close>

definition report :: "ValidatedRecord list \<Rightarrow> Diagnostic list \<Rightarrow> Report" where
  "report vs stage_diagnostics =
     \<lparr>byPhase = index_by (\<lambda>v. phase (breadcrumb v)) vs,
      unindexed = filter (\<lambda>v. phase (breadcrumb v) = None) vs,
      allDiagnostics = stage_diagnostics @ concat (map diagnostics vs),
      byStatus = index_by (\<lambda>v. Some (status (breadcrumb v))) vs,
      byAssignee = index_by (\<lambda>v. assignedTo (breadcrumb v)) vs,
      byPriority = sort_key priority_key (filter (\<lambda>v. indexPriority v \<noteq> None) vs)\<rparr>"

section \<open>Example inputs\<close>

text \<open>Modelled from the spec: the block of the scenario of section 8,
  \<open>// AI_PHASE: X\<close> followed by \<open>// AI_STATUS: BOGUS\<close>, its comment markers stripped.\<close>

definition bogus_status_block :: CommentBlock where
  "bogus_status_block =
     \<lparr>path = ''scenario.c'', startLine = 1, endLine = 2,
      blockText = ['' AI_PHASE: X'', '' AI_STATUS: BOGUS''], declarationName = None\<rparr>"

text \<open>Modelled from the spec: a record with \<open>retryCount=4, maxRetries=3\<close>, the values of
  section 8, on the \<open>NETWORK_STACK\<close> phase of distributed_ai_example.c.\<close>

definition retry_example :: BreadcrumbRecord where
  "retry_example =
     (initial_record (''distributed_ai_example.c'', 56, 72))
       \<lparr>phase := Some ''NETWORK_STACK'', status := PARTIAL,
        retryCount := Some 4, maxRetries := Some 3\<rparr>"

text \<open>Modelled from the spec: a record with a priority above the range [0,10], on the
  \<open>LOGGING_SYSTEM\<close> phase of distributed_ai_example.c.\<close>

definition priority_example :: BreadcrumbRecord where
  "priority_example =
     (initial_record (''distributed_ai_example.c'', 79, 85))
       \<lparr>phase := Some ''LOGGING_SYSTEM'', status := NOT_STARTED, priority := Some 11\<rparr>"

section \<open>Properties of the demo programs\<close>

lemma handle_error_null:
  "handle_error None s = Inr (s\<lparr>stderr := stderr s @ ''Error: NULL error message\<newline>''\<rparr>)"
  by (simp add: handle_error_def fprintf_stderr_def)

lemma handle_error_message:
  "handle_error (Some m) s = Inr (s\<lparr>stderr := stderr s @ ''Error: '' @ m @ ''\<newline>''\<rparr>)"
  by (simp add: handle_error_def fprintf_stderr_s_def)

lemma init_kernel_memory_result:
  "init_kernel_memory s =
     (s\<lparr>stdout := stdout s @ ''Initializing kernel memory subsystem...\<newline>''
          @ ''Kernel memory initialized successfully\<newline>''\<rparr>, 0)"
  by (simp add: init_kernel_memory_def printf_def)

lemma init_gpu_pipeline_result:
  "init_gpu_pipeline s =
     (s\<lparr>stdout := stdout s @ ''Initializing GPU pipeline...\<newline>''
          @ ''Basic GPU initialization complete\<newline>''\<rparr>, 0)"
  by (simp add: init_gpu_pipeline_def printf_def)

lemma run_tests_result:
  "run_tests s =
     Inr (s\<lparr>stdout := stdout s @ ''\<newline>=== Running Demo Tests ===\<newline>''
               @ ''Test 1: Kernel Memory Init... ''
               @ ''Initializing kernel memory subsystem...\<newline>''
               @ ''Kernel memory initialized successfully\<newline>''
               @ ''PASS\<newline>''
               @ ''Test 2: GPU Pipeline Init... ''
               @ ''Initializing GPU pipeline...\<newline>''
               @ ''Basic GPU initialization complete\<newline>''
               @ ''PASS (with TODOs)\<newline>''
               @ ''Test 3: Error Handling... ''
               @ ''PASS\<newline>''
               @ ''\<newline>All tests completed!\<newline>'',
             stderr := stderr s @ ''Error: Test error message\<newline>''
               @ ''Error: NULL error message\<newline>''\<rparr>, 0)"
  by (simp add: run_tests_def init_kernel_memory_result init_gpu_pipeline_result
      handle_error_null handle_error_message printf_def)

text \<open>
  Claim C1. Each of the three \<open>main\<close> functions returns 0 after appending its messages to
  standard output, from any state of the streams. In demo_breadcrumb.c the result of
  \<open>main\<close> is the result of \<open>run_tests\<close>, which is 0 because \<open>init_kernel_memory\<close> and
  \<open>init_gpu_pipeline\<close> both return 0; no run of it faults.
\<close>

theorem demo_mains_return_zero:
  "demo_block_comments_main s =
     (s\<lparr>stdout := stdout s @ ''Enhanced Breadcrumb Parser Test\<newline>''
          @ ''================================\<newline>\<newline>''
          @ ''Issue tracking integration initialized\<newline>''
          @ ''Edge case handled with human override\<newline>''
          @ ''Block comment parsing works!\<newline>''
          @ ''\<newline>All tests passed!\<newline>''\<rparr>, 0)
   \<and> snd (init_kernel_memory s) = 0
   \<and> snd (init_gpu_pipeline s) = 0
   \<and> (\<exists>s'. run_tests s = Inr (s', 0))
   \<and> (\<exists>s'. demo_breadcrumb_main s = Inr (s', 0)
          \<and> demo_breadcrumb_main s =
              run_tests (s\<lparr>stdout := stdout s @ ''AI Breadcrumb Demo Program\<newline>''
                @ ''==========================\<newline>\<newline>''
                @ ''This program demonstrates the AI breadcrumb system.\<newline>''
                @ ''Each function has AI metadata comments that track:\<newline>''
                @ ''  - Development phase and status\<newline>''
                @ ''  - Implementation strategy\<newline>''
                @ ''  - Errors and fixes\<newline>''
                @ ''  - Cross-references to other systems\<newline>\<newline>''\<rparr>))
   \<and> distributed_ai_example_main argc argv s =
       (s\<lparr>stdout := stdout s @ ''Distributed AI Development Example\<newline>''
          @ ''Demonstrating breadcrumb usage for multi-agent coordination\<newline>''
          @ ''System initialized\<newline>''\<rparr>, 0)"
proof -
  have block: "demo_block_comments_main s =
     (s\<lparr>stdout := stdout s @ ''Enhanced Breadcrumb Parser Test\<newline>''
          @ ''================================\<newline>\<newline>''
          @ ''Issue tracking integration initialized\<newline>''
          @ ''Edge case handled with human override\<newline>''
          @ ''Block comment parsing works!\<newline>''
          @ ''\<newline>All tests passed!\<newline>''\<rparr>, 0)"
    by (simp add: demo_block_comments_main_def init_issue_tracking_def handle_edge_case_def
        test_block_comments_def printf_def)
  have inits: "snd (init_kernel_memory s) = 0" "snd (init_gpu_pipeline s) = 0"
    by (simp_all add: init_kernel_memory_result init_gpu_pipeline_result)
  have tests: "\<exists>s'. run_tests s = Inr (s', 0)"
    by (simp add: run_tests_result)
  have breadcrumb_eq: "demo_breadcrumb_main s =
              run_tests (s\<lparr>stdout := stdout s @ ''AI Breadcrumb Demo Program\<newline>''
                @ ''==========================\<newline>\<newline>''
                @ ''This program demonstrates the AI breadcrumb system.\<newline>''
                @ ''Each function has AI metadata comments that track:\<newline>''
                @ ''  - Development phase and status\<newline>''
                @ ''  - Implementation strategy\<newline>''
                @ ''  - Errors and fixes\<newline>''
                @ ''  - Cross-references to other systems\<newline>\<newline>''\<rparr>)"
    by (simp add: demo_breadcrumb_main_def printf_def)
  have breadcrumb: "\<exists>s'. demo_breadcrumb_main s = Inr (s', 0)"
    unfolding breadcrumb_eq by (simp add: run_tests_result)
  have distributed: "distributed_ai_example_main argc argv s =
       (s\<lparr>stdout := stdout s @ ''Distributed AI Development Example\<newline>''
          @ ''Demonstrating breadcrumb usage for multi-agent coordination\<newline>''
          @ ''System initialized\<newline>''\<rparr>, 0)"
    by (simp add: distributed_ai_example_main_def system_init_def printf_def)
  from block inits tests breadcrumb breadcrumb_eq distributed show ?thesis
    by blast
qed

text \<open>
  Claim C9. \<open>handle_error\<close> never faults: on \<open>NULL\<close> it writes
  "Error: NULL error message" to \<open>stderr\<close> and returns, on a message it writes the message
  to \<open>stderr\<close>; standard output is untouched either way. So the two calls in \<open>run_tests\<close>,
  the second of them \<open>handle_error(NULL)\<close>, complete and \<open>run_tests\<close> does not fault.
\<close>

theorem handle_error_never_faults:
  "handle_error None s = Inr (s\<lparr>stderr := stderr s @ ''Error: NULL error message\<newline>''\<rparr>)
   \<and> handle_error (Some m) s = Inr (s\<lparr>stderr := stderr s @ ''Error: '' @ m @ ''\<newline>''\<rparr>)
   \<and> (\<forall>f. handle_error msg s \<noteq> Inl f)
   \<and> (\<forall>f. run_tests s \<noteq> Inl f)"
proof -
  have "\<forall>f. handle_error msg s \<noteq> Inl f"
    by (cases msg) (simp_all add: handle_error_null handle_error_message)
  moreover have "\<forall>f. run_tests s \<noteq> Inl f"
    by (simp add: run_tests_result)
  ultimately show ?thesis
    by (simp add: handle_error_null handle_error_message)
qed

text \<open>
  Claim C10. \<open>network_send\<close> returns 0 whatever the data pointer (\<open>NULL\<close> included) and
  the length are: any two calls return the same value.
\<close>

theorem network_send_returns_zero:
  "network_send data len = 0
   \<and> network_send NULL len = 0
   \<and> network_send data len = network_send data' len'"
  by (simp add: network_send_def)

section \<open>Properties of the Reporter's indices\<close>

lemma map_of_index_add:
  "map_of (index_add k v idx) k' =
     (if k' = k then Some ((case map_of idx k of None \<Rightarrow> [] | Some vs \<Rightarrow> vs) @ [v])
      else map_of idx k')"
  by (induction idx) auto

lemma map_of_index_fold:
  "map_of (foldl (\<lambda>idx v. case key v of None \<Rightarrow> idx | Some k \<Rightarrow> index_add k v idx) idx vs) k =
     (if filter (\<lambda>v. key v = Some k) vs = [] then map_of idx k
      else Some ((case map_of idx k of None \<Rightarrow> [] | Some ws \<Rightarrow> ws) @ filter (\<lambda>v. key v = Some k) vs))"
proof (induction vs arbitrary: idx)
  case Nil
  then show ?case by simp
next
  case (Cons v vs)
  show ?case
  proof (cases "key v")
    case None
    then show ?thesis using Cons.IH [of idx] by simp
  next
    case (Some k')
    then show ?thesis
      using Cons.IH [of "index_add k' v idx"]
      by (auto simp: map_of_index_add split: option.splits)
  qed
qed

lemma map_of_index_by:
  "map_of (index_by key vs) k =
     (if filter (\<lambda>v. key v = Some k) vs = [] then None
      else Some (filter (\<lambda>v. key v = Some k) vs))"
  unfolding index_by_def by (simp add: map_of_index_fold)

lemma index_by_member:
  assumes "v \<in> set vs" and "key v = Some k"
  shows "\<exists>ws. map_of (index_by key vs) k = Some ws \<and> v \<in> set ws"
proof -
  from assms have mem: "v \<in> set (filter (\<lambda>v. key v = Some k) vs)" by simp
  then have "filter (\<lambda>v. key v = Some k) vs \<noteq> []"
    by (metis empty_iff list.set(1))
  with mem show ?thesis
    by (simp add: map_of_index_by)
qed

section \<open>Properties of the Schema Validator\<close>

lemma check_retries_violation:
  assumes "retryCount r = Some c" and "maxRetries r = Some m" and "m < c"
  shows "check_retries r =
    [\<lparr>severity = Error, message = ''retryCount exceeds maxRetries'', location = sourceLocation r\<rparr>]"
  using assms by (simp add: check_retries_def)

text \<open>
  Claim C2. A record that has both \<open>retryCount\<close> and \<open>maxRetries\<close> with
  \<open>retryCount > maxRetries\<close> gets an error-severity Diagnostic from validation, which is
  also in the report's diagnostic list; the record is flagged, it is kept as it was, and
  it is in the aggregate report of every corpus it belongs to: under its phase in the
  primary index, or in the unindexed list when it has no phase.
\<close>

theorem retry_violation_flagged_and_retained:
  assumes "r \<in> set rs"
    and "retryCount r = Some c" and "maxRetries r = Some m" and "m < c"
  shows "(\<exists>d \<in> set (diagnostics (validate r)).
            severity d = Error \<and> d \<in> set (allDiagnostics (report (map validate rs) ds)))
       \<and> flagged (validate r)
       \<and> breadcrumb (validate r) = r
       \<and> (case phase r of
             None \<Rightarrow> validate r \<in> set (unindexed (report (map validate rs) ds))
           | Some p \<Rightarrow> (\<exists>vs. map_of (byPhase (report (map validate rs) ds)) p = Some vs
                          \<and> validate r \<in> set vs))"
proof -
  let ?d = "\<lparr>severity = Error, message = ''retryCount exceeds maxRetries'',
             location = sourceLocation r\<rparr>"
  have d_in: "?d \<in> set (diagnostics (validate r))"
    using assms(2-4) by (simp add: validate_def check_retries_violation)
  have v_in: "validate r \<in> set (map validate rs)"
    using assms(1) by simp
  have "?d \<in> set (allDiagnostics (report (map validate rs) ds))"
    using d_in assms(1) by (auto simp: report_def)
  with d_in have first: "\<exists>d \<in> set (diagnostics (validate r)).
            severity d = Error \<and> d \<in> set (allDiagnostics (report (map validate rs) ds))"
    by (intro bexI [of _ ?d]) simp_all
  have second: "flagged (validate r)"
    using d_in unfolding flagged_def list_ex_iff by (intro bexI [of _ ?d]) simp_all
  have third: "breadcrumb (validate r) = r"
    by (simp add: validate_def)
  have fourth: "(case phase r of
             None \<Rightarrow> validate r \<in> set (unindexed (report (map validate rs) ds))
           | Some p \<Rightarrow> (\<exists>vs. map_of (byPhase (report (map validate rs) ds)) p = Some vs
                          \<and> validate r \<in> set vs))"
  proof (cases "phase r")
    case None
    then show ?thesis using v_in third by (simp add: report_def)
  next
    case (Some p)
    have "phase (breadcrumb (validate r)) = Some p"
      using Some third by simp
    from index_by_member [OF v_in, of "\<lambda>v. phase (breadcrumb v)" p, OF this]
    show ?thesis using Some by (simp add: report_def)
  qed
  from first second third fourth show ?thesis by blast
qed

text \<open>The values of the spec's example, \<open>retryCount=4, maxRetries=3\<close>.\<close>

theorem retry_violation_witness:
  "(\<exists>d \<in> set (diagnostics (validate retry_example)).
        severity d = Error
        \<and> d \<in> set (allDiagnostics (report (map validate [retry_example]) [])))
   \<and> flagged (validate retry_example)
   \<and> breadcrumb (validate retry_example) = retry_example
   \<and> (\<exists>vs. map_of (byPhase (report (map validate [retry_example]) [])) ''NETWORK_STACK'' = Some vs
          \<and> validate retry_example \<in> set vs)"
  using retry_violation_flagged_and_retained [of retry_example "[retry_example]" 4 3 "[]"]
  by (simp add: retry_example_def initial_record_def)

text \<open>
  Claim C8. A record whose priority lies outside [0,10] gets a warning-severity Diagnostic
  from validation; the priority used for indexing is the nearest bound, and the record is
  in the report's index by priority; the record itself is unchanged, its \<open>priority\<close> field
  still the out-of-range value.
\<close>

theorem out_of_range_priority_clamped_for_index_only:
  assumes "r \<in> set rs" and "priority r = Some p" and "p < 0 \<or> 10 < p"
  shows "(\<exists>d \<in> set (diagnostics (validate r)).
            severity d = Warning \<and> d \<in> set (allDiagnostics (report (map validate rs) ds)))
       \<and> indexPriority (validate r) = Some (if p < 0 then 0 else 10)
       \<and> breadcrumb (validate r) = r
       \<and> priority (breadcrumb (validate r)) = Some p
       \<and> validate r \<in> set (byPriority (report (map validate rs) ds))"
proof -
  let ?d = "\<lparr>severity = Warning, message = ''priority out of range'',
             location = sourceLocation r\<rparr>"
  have d_in: "?d \<in> set (diagnostics (validate r))"
    using assms(2,3) by (auto simp: validate_def check_priority_def)
  have "?d \<in> set (allDiagnostics (report (map validate rs) ds))"
    using d_in assms(1) by (auto simp: report_def)
  with d_in have first: "\<exists>d \<in> set (diagnostics (validate r)).
            severity d = Warning \<and> d \<in> set (allDiagnostics (report (map validate rs) ds))"
    by (intro bexI [of _ ?d]) simp_all
  have second: "indexPriority (validate r) = Some (if p < 0 then 0 else 10)"
    using assms(2,3) by (auto simp: validate_def clamp_priority_def)
  have third: "breadcrumb (validate r) = r"
    by (simp add: validate_def)
  have fourth: "priority (breadcrumb (validate r)) = Some p"
    using assms(2) third by simp
  have fifth: "validate r \<in> set (byPriority (report (map validate rs) ds))"
    using assms(1) second by (simp add: report_def)
  from first second third fourth fifth show ?thesis by blast
qed

text \<open>A priority of 11 is indexed as 10 and stays 11 in the record.\<close>

theorem out_of_range_priority_witness:
  "(\<exists>d \<in> set (diagnostics (validate priority_example)).
        severity d = Warning
        \<and> d \<in> set (allDiagnostics (report (map validate [priority_example]) [])))
   \<and> indexPriority (validate priority_example) = Some 10
   \<and> priority (breadcrumb (validate priority_example)) = Some 11
   \<and> validate priority_example \<in> set (byPriority (report (map validate [priority_example]) []))"
  using out_of_range_priority_clamped_for_index_only
          [of priority_example "[priority_example]" 11 "[]"]
  by (simp add: priority_example_def initial_record_def)

section \<open>Properties of the Field Parser\<close>

lemma parse_lines_append:
  "parse_lines loc (xs @ ys) st = parse_lines loc ys (parse_lines loc xs st)"
  by (induction xs arbitrary: st) simp_all

lemma parse_line_mode_partial:
  assumes "mode st = mode st'" and "partial st = partial st'"
  shows "mode (parse_line loc l st) = mode (parse_line loc l st')
       \<and> partial (parse_line loc l st) = partial (parse_line loc l st')"
  using assms by (simp add: parse_line_def split: Mode.splits option.splits prod.splits)

lemma parse_lines_mode_partial:
  assumes "mode st = mode st'" and "partial st = partial st'"
  shows "mode (parse_lines loc ls st) = mode (parse_lines loc ls st')
       \<and> partial (parse_lines loc ls st) = partial (parse_lines loc ls st')"
  using assms
proof (induction ls arbitrary: st st')
  case Nil
  then show ?case by simp
next
  case (Cons l ls)
  from parse_line_mode_partial [OF Cons.prems, of loc l]
  show ?case using Cons.IH [of "parse_line loc l st" "parse_line loc l st'"] by simp
qed

lemma parse_line_recognized:
  "recognized st \<Longrightarrow> recognized (parse_line loc l st)"
  by (simp add: parse_line_def split: Mode.splits option.splits prod.splits)

lemma parse_lines_recognized:
  "recognized st \<Longrightarrow> recognized (parse_lines loc ls st)"
  by (induction ls arbitrary: st) (simp_all add: parse_line_recognized)

lemma apply_field_status:
  "k \<noteq> ''AI_STATUS'' \<Longrightarrow> status (apply_field k v r) = status r"
  by (simp add: apply_field_def)

lemma parse_line_status:
  assumes "field_key l \<noteq> Some ''AI_STATUS''"
  shows "status (partial (parse_line loc l st)) = status (partial st)"
  using assms
  by (auto simp: parse_line_def field_key_def apply_field_status
      split: Mode.splits option.splits prod.splits)

lemma parse_lines_status:
  assumes "\<forall>l \<in> set ls. field_key l \<noteq> Some ''AI_STATUS''"
  shows "status (partial (parse_lines loc ls st)) = status (partial st)"
  using assms by (induction ls arbitrary: st) (simp_all add: parse_line_status)

lemma parse_line_emitted:
  assumes "field_key l \<noteq> Some ''AI_STATUS''"
  shows "emitted (parse_line loc l st) = emitted st"
  using assms
  by (auto simp: parse_line_def field_key_def status_diagnostics_def
      split: Mode.splits option.splits prod.splits)

lemma parse_lines_emitted:
  assumes "\<forall>l \<in> set ls. field_key l \<noteq> Some ''AI_STATUS''"
  shows "emitted (parse_lines loc ls st) = emitted st"
  using assms by (induction ls arbitrary: st) (simp_all add: parse_line_emitted)

lemma parse_status_unrecognized:
  assumes "v \<notin> {''NOT_STARTED'', ''PARTIAL'', ''IMPLEMENTED'', ''FIXED'', ''UNKNOWN''}"
  shows "parse_status v = None"
  using assms by (simp add: parse_status_def)

lemma parse_line_bogus_status:
  assumes "mode st = OUTSIDE"
    and "field_assignment l = Some (''AI_STATUS'', v)"
    and "parse_status v = None"
  shows "parse_line loc l st =
     st\<lparr>partial := (partial st)\<lparr>status := UNKNOWN\<rparr>,
        emitted := emitted st @ [\<lparr>severity = Warning,
          message = ''unrecognized status value: '' @ v, location = loc\<rparr>],
        recognized := True\<rparr>"
  using assms
  by (simp add: parse_line_def apply_field_def status_diagnostics_def is_recognized_key_def
      field_keys_def)

lemma finish_fst:
  assumes "mode st = mode st'" and "partial st = partial st'"
  shows "fst (finish loc st) = fst (finish loc st')"
  using assms by (simp add: finish_def split: Mode.splits)

lemma finish_snd:
  assumes "mode st = mode st'"
  shows "snd (finish loc st) = emitted st @ drop (length (emitted st')) (snd (finish loc st'))"
  using assms by (simp add: finish_def split: Mode.splits)

lemma finish_status:
  "status (fst (finish loc st)) = status (partial st)"
  by (simp add: finish_def split: Mode.splits)

lemma finish_no_warning:
  "filter (\<lambda>d. severity d = Warning) (snd (finish loc st)) =
   filter (\<lambda>d. severity d = Warning) (emitted st)"
  by (simp add: finish_def split: Mode.splits)

text \<open>
  Claim C4. Take a comment block with one \<open>AI_STATUS\<close> assignment, read outside a context
  region, whose value is not one of \<open>NOT_STARTED\<close>, \<open>PARTIAL\<close>, \<open>IMPLEMENTED\<close>, \<open>FIXED\<close>,
  \<open>UNKNOWN\<close>. The Field Parser produces a record for it; the record is the one the block
  parses to without that line, so every other field is parsed as it would be, and its
  status is \<open>UNKNOWN\<close>; the diagnostics are those of the rest of the block, none of them a
  warning, with the one warning "unrecognized status value: VALUE" added.
\<close>

theorem unrecognized_status_maps_to_unknown:
  assumes block_lines: "blockText b = pre @ l # post"
    and line: "field_assignment l = Some (''AI_STATUS'', v)"
    and bogus: "v \<notin> {''NOT_STARTED'', ''PARTIAL'', ''IMPLEMENTED'', ''FIXED'', ''UNKNOWN''}"
    and outside: "mode (parse_lines (block_location b) pre (initial_state (block_location b))) = OUTSIDE"
    and single: "\<forall>l' \<in> set (pre @ post). field_key l' \<noteq> Some ''AI_STATUS''"
  shows "field_parser b =
           Some (fst (parse_result (b\<lparr>blockText := pre @ post\<rparr>)),
                 \<lparr>severity = Warning, message = ''unrecognized status value: '' @ v,
                  location = block_location b\<rparr>
                 # snd (parse_result (b\<lparr>blockText := pre @ post\<rparr>)))
       \<and> status (fst (parse_result (b\<lparr>blockText := pre @ post\<rparr>))) = UNKNOWN
       \<and> filter (\<lambda>d. severity d = Warning) (snd (parse_result (b\<lparr>blockText := pre @ post\<rparr>))) = []"
proof -
  let ?loc = "block_location b"
  let ?w = "\<lparr>severity = Warning, message = ''unrecognized status value: '' @ v,
             location = ?loc\<rparr>"
  let ?b' = "b\<lparr>blockText := pre @ post\<rparr>"
  define st1 where "st1 = parse_lines ?loc pre (initial_state ?loc)"
  define st2 where "st2 = parse_line ?loc l st1"
  define st3 where "st3 = parse_lines ?loc post st2"
  define st3' where "st3' = parse_lines ?loc post st1"
  have loc': "block_location ?b' = ?loc"
    by (simp add: block_location_def)
  have pb: "parse_block b = st3"
    by (simp add: parse_block_def block_lines parse_lines_append st1_def st2_def st3_def)
  have pb': "parse_block ?b' = st3'"
    by (simp add: parse_block_def loc' parse_lines_append st1_def st3'_def)
  from single have pre_ok: "\<forall>l' \<in> set pre. field_key l' \<noteq> Some ''AI_STATUS''"
    and post_ok: "\<forall>l' \<in> set post. field_key l' \<noteq> Some ''AI_STATUS''"
    by simp_all
  have st1_status: "status (partial st1) = UNKNOWN"
    unfolding st1_def
    by (simp add: parse_lines_status [OF pre_ok] initial_state_def initial_record_def)
  have st1_emitted: "emitted st1 = []"
    unfolding st1_def by (simp add: parse_lines_emitted [OF pre_ok] initial_state_def)
  have st1_mode: "mode st1 = OUTSIDE"
    unfolding st1_def by (rule outside)
  have st2_eq: "st2 = st1\<lparr>partial := (partial st1)\<lparr>status := UNKNOWN\<rparr>,
        emitted := emitted st1 @ [?w], recognized := True\<rparr>"
    unfolding st2_def
    by (rule parse_line_bogus_status [OF st1_mode line parse_status_unrecognized [OF bogus]])
  have same_record: "(partial st1)\<lparr>status := UNKNOWN\<rparr> = partial st1"
    using st1_status by (metis BreadcrumbRecord.surjective BreadcrumbRecord.update_convs(2))
  have st2_mode: "mode st2 = mode st1" and st2_partial: "partial st2 = partial st1"
    and st2_emitted: "emitted st2 = [?w]" and st2_recognized: "recognized st2"
    by (simp_all add: st2_eq same_record st1_emitted)
  from parse_lines_mode_partial [OF st2_mode st2_partial, of ?loc post]
  have st3_mode: "mode st3 = mode st3'" and st3_partial: "partial st3 = partial st3'"
    by (simp_all add: st3_def st3'_def)
  have st3_emitted: "emitted st3 = [?w]"
    unfolding st3_def by (simp add: parse_lines_emitted [OF post_ok] st2_emitted)
  have st3'_emitted: "emitted st3' = []"
    unfolding st3'_def by (simp add: parse_lines_emitted [OF post_ok] st1_emitted)
  have st3_recognized: "recognized st3"
    unfolding st3_def by (rule parse_lines_recognized [OF st2_recognized])
  have st3'_status: "status (partial st3') = UNKNOWN"
    unfolding st3'_def by (simp add: parse_lines_status [OF post_ok] st1_status)
  have record_eq: "fst (finish ?loc st3) = fst (finish ?loc st3')"
    by (rule finish_fst [OF st3_mode st3_partial])
  have diags_eq: "snd (finish ?loc st3) = ?w # snd (finish ?loc st3')"
    using finish_snd [OF st3_mode, of ?loc] by (simp add: st3_emitted st3'_emitted)
  have first: "field_parser b = Some (fst (parse_result ?b'), ?w # snd (parse_result ?b'))"
    using st3_recognized record_eq diags_eq
    by (simp add: field_parser_def parse_result_def pb pb' loc' prod_eq_iff)
  have second: "status (fst (parse_result ?b')) = UNKNOWN"
    by (simp add: parse_result_def pb' loc' finish_status st3'_status)
  have third: "filter (\<lambda>d. severity d = Warning) (snd (parse_result ?b')) = []"
    by (simp add: parse_result_def pb' loc' finish_no_warning st3'_emitted)
  from first second third show ?thesis by blast
qed

text \<open>The scenario of the spec: \<open>AI_PHASE: X\<close> then \<open>AI_STATUS: BOGUS\<close> gives phase X, status
  \<open>UNKNOWN\<close> and the one warning.\<close>

theorem unrecognized_status_witness:
  "field_parser bogus_status_block =
     Some ((initial_record (''scenario.c'', 1, 2))\<lparr>phase := Some ''X''\<rparr>,
           [\<lparr>severity = Warning, message = ''unrecognized status value: BOGUS'',
             location = (''scenario.c'', 1, 2)\<rparr>])
   \<and> status ((initial_record (''scenario.c'', 1, 2))\<lparr>phase := Some ''X''\<rparr>) = UNKNOWN"
proof -
  have line: "field_assignment '' AI_STATUS: BOGUS'' = Some (''AI_STATUS'', ''BOGUS'')"
    by (simp add: field_assignment_def is_space_def is_key_char_def)
  have phase_line: "field_assignment '' AI_PHASE: X'' = Some (''AI_PHASE'', ''X'')"
    by (simp add: field_assignment_def is_space_def is_key_char_def)
  have step: "\<And>loc. parse_line loc '' AI_PHASE: X'' (initial_state loc) =
     \<lparr>mode = OUTSIDE, partial = (initial_record loc)\<lparr>phase := Some ''X''\<rparr>,
      emitted = [], recognized = True\<rparr>"
    by (simp add: parse_line_def phase_line initial_state_def apply_field_def
        status_diagnostics_def is_recognized_key_def field_keys_def)
  have loc: "block_location bogus_status_block = (''scenario.c'', 1, 2)"
    by (simp add: block_location_def bogus_status_block_def)
  have rest: "parse_result (bogus_status_block\<lparr>blockText := ['' AI_PHASE: X''] @ []\<rparr>) =
     ((initial_record (''scenario.c'', 1, 2))\<lparr>phase := Some ''X''\<rparr>, [])"
    by (simp add: parse_result_def parse_block_def block_location_def bogus_status_block_def
        step finish_def)
  have h1: "blockText bogus_status_block = ['' AI_PHASE: X''] @ '' AI_STATUS: BOGUS'' # []"
    by (simp add: bogus_status_block_def)
  have h3: "''BOGUS'' \<notin> {''NOT_STARTED'', ''PARTIAL'', ''IMPLEMENTED'', ''FIXED'', ''UNKNOWN''}"
    by simp
  have h4: "mode (parse_lines (block_location bogus_status_block) ['' AI_PHASE: X'']
              (initial_state (block_location bogus_status_block))) = OUTSIDE"
    by (simp add: step)
  have h5: "\<forall>l' \<in> set (['' AI_PHASE: X''] @ []). field_key l' \<noteq> Some ''AI_STATUS''"
    by (simp add: field_key_def phase_line)
  from unrecognized_status_maps_to_unknown [OF h1 line h3 h4 h5]
  show ?thesis
    unfolding rest loc by (simp add: initial_record_def)
qed

end
